theory Spec2Isabelle
  imports Main "HOL-Library.Sublist"
begin

section \<open>JavaScript values\<close>

text \<open>
  The body of the token endpoint's answer reaches the action as \<open>response.data\<close>, the
  value axios obtained from the body (a parsed JSON value, or a string when the body is
  not JSON). Numbers are the integer-valued ones inside the safe range, where JavaScript
  prints plain decimal digits. An object is its list of members in insertion order; as
  after \<open>JSON.parse\<close>, its keys are distinct. Characters are bytes: a character beyond
  ASCII is its UTF-8 sequence and passes through every function below unchanged.
\<close>

datatype json =
    JNull
  | JBool bool
  | JNum int
  | JStr string
  | JArr "json list"
  | JObj "(string \<times> json) list"

definition digit_char :: "nat \<Rightarrow> char" where
  "digit_char d = ''0123456789'' ! d"

function decimal :: "nat \<Rightarrow> string" where
  "decimal n = (if n < 10 then [digit_char n] else decimal (n div 10) @ [digit_char (n mod 10)])"
  by pat_completeness auto
termination
  by (relation "measure id") auto

declare decimal.simps [simp del]

definition show_int :: "int \<Rightarrow> string" where
  "show_int i = (if i < 0 then ''-'' @ decimal (nat (- i)) else decimal (nat i))"

fun join :: "string \<Rightarrow> string list \<Rightarrow> string" where
  "join sep [] = []"
| "join sep [x] = x"
| "join sep (x # y # ys) = x @ sep @ join sep (y # ys)"

text \<open>
  \<open>a && b\<close> and \<open>if (a)\<close> test truthiness: \<open>null\<close>, \<open>false\<close>, \<open>0\<close> and the empty
  string are falsy, every array and object is truthy.
\<close>

fun truthy :: "json \<Rightarrow> bool" where
  "truthy JNull = False"
| "truthy (JBool b) = b"
| "truthy (JNum n) = (n \<noteq> 0)"
| "truthy (JStr s) = (s \<noteq> [])"
| "truthy (JArr xs) = True"
| "truthy (JObj kvs) = True"

text \<open>
  \<open>data.access_token\<close>: the member of an object, and \<open>undefined\<close> (here \<open>None\<close>) when
  the object has no such member or \<open>data\<close> is a string, a number, a boolean or an array.
\<close>

fun access_token :: "json \<Rightarrow> json option" where
  "access_token (JObj kvs) = map_of kvs ''access_token''"
| "access_token _ = None"

text \<open>
  What a template literal \<open>${x}\<close> inserts for a value: \<open>String(x)\<close>. An array is its
  elements joined by commas, with \<open>null\<close> elements left empty.
\<close>

fun js_String :: "json \<Rightarrow> string"
  and js_String_elem :: "json \<Rightarrow> string"
  and js_String_elems :: "json list \<Rightarrow> string list" where
  "js_String JNull = ''null''"
| "js_String (JBool b) = (if b then ''true'' else ''false'')"
| "js_String (JNum n) = show_int n"
| "js_String (JStr s) = s"
| "js_String (JArr xs) = join '','' (js_String_elems xs)"
| "js_String (JObj kvs) = ''[object Object]''"
| "js_String_elem JNull = []"
| "js_String_elem (JBool b) = js_String (JBool b)"
| "js_String_elem (JNum n) = js_String (JNum n)"
| "js_String_elem (JStr s) = js_String (JStr s)"
| "js_String_elem (JArr xs) = js_String (JArr xs)"
| "js_String_elem (JObj kvs) = js_String (JObj kvs)"
| "js_String_elems [] = []"
| "js_String_elems (x # xs) = js_String_elem x # js_String_elems xs"

text \<open>An argument that was not passed is \<open>undefined\<close>, and \<open>${undefined}\<close> is that word.\<close>

fun template_arg :: "string option \<Rightarrow> string" where
  "template_arg None = ''undefined''"
| "template_arg (Some s) = s"

subsection \<open>\<open>JSON.stringify\<close>\<close>

definition hex_char :: "nat \<Rightarrow> char" where
  "hex_char d = ''0123456789abcdef'' ! d"

definition json_escape_char :: "char \<Rightarrow> string" where
  \<open>json_escape_char c =
     (if c = CHR 0x22 then [CHR 0x5C, CHR 0x22]
      else if c = CHR 0x5C then [CHR 0x5C, CHR 0x5C]
      else if c = CHR 0x08 then [CHR 0x5C, CHR ''b'']
      else if c = CHR 0x0C then [CHR 0x5C, CHR ''f'']
      else if c = CHR 0x0A then [CHR 0x5C, CHR ''n'']
      else if c = CHR 0x0D then [CHR 0x5C, CHR ''r'']
      else if c = CHR 0x09 then [CHR 0x5C, CHR ''t'']
      else if (of_char c :: nat) < 32
        then [CHR 0x5C, CHR ''u'', CHR ''0'', CHR ''0'',
              hex_char (of_char c div 16), hex_char (of_char c mod 16)]
      else [c])\<close>

definition json_quote :: "string \<Rightarrow> string" where
  \<open>json_quote s = [CHR 0x22] @ concat (map json_escape_char s) @ [CHR 0x22]\<close>

fun JSON_stringify :: "json \<Rightarrow> string"
  and JSON_stringify_elems :: "json list \<Rightarrow> string list"
  and JSON_stringify_members :: "(string \<times> json) list \<Rightarrow> string list" where
  "JSON_stringify JNull = ''null''"
| "JSON_stringify (JBool b) = (if b then ''true'' else ''false'')"
| "JSON_stringify (JNum n) = show_int n"
| "JSON_stringify (JStr s) = json_quote s"
| "JSON_stringify (JArr xs) = ''['' @ join '','' (JSON_stringify_elems xs) @ '']''"
| "JSON_stringify (JObj kvs) = ''{'' @ join '','' (JSON_stringify_members kvs) @ ''}''"
| "JSON_stringify_elems [] = []"
| "JSON_stringify_elems (x # xs) = JSON_stringify x # JSON_stringify_elems xs"
| "JSON_stringify_members [] = []"
| "JSON_stringify_members (kv # kvs) =
     (json_quote (fst kv) @ '':'' @ JSON_stringify (snd kv)) # JSON_stringify_members kvs"

subsection \<open>\<open>String.prototype.trim\<close>\<close>

text \<open>The white space of ASCII; the white space beyond ASCII is not modelled.\<close>

definition is_whitespace :: "char \<Rightarrow> bool" where
  "is_whitespace c \<longleftrightarrow> c \<in> {CHR '' '', CHR 0x09, CHR 0x0A, CHR 0x0B, CHR 0x0C, CHR 0x0D}"

definition trim :: "string \<Rightarrow> string" where
  "trim s = rev (dropWhile is_whitespace (rev (dropWhile is_whitespace s)))"

section \<open>The environment of an invocation and its effects\<close>

text \<open>
  The action talks to four collaborators that are not part of the repository: the
  Actions toolkit (\<open>@actions/core\<close>, \<open>@actions/exec\<close>), axios, and Node's \<open>fs\<close>,
  \<open>path\<close> and \<open>os\<close>. What they answer is the environment \<open>env\<close>, fixed for one
  invocation; what the action does to them is recorded in the \<open>world\<close>, which every
  function takes and returns.
\<close>

text \<open>
  \<open>exec('mvn', ['--version'], options)\<close> resolves to the exit code, having fed the
  standard output to the listener, or rejects with an error.
\<close>

datatype exec_result = Exited int string | ExecFailed string

record http_response =
  status :: nat
  data :: json

text \<open>
  The value caught by \<open>catch (error)\<close>: its message, the response it carries (an axios
  error for an answered request) and whether it carries the request (an axios error for a
  request that was sent).
\<close>

record js_error =
  response :: "http_response option"
  request :: bool
  message :: string

datatype axios_result = Resolved http_response | Rejected js_error

record post_request =
  url :: string
  params :: "(string \<times> string) list"
  headers :: "(string \<times> string) list"
  timeout :: nat

record env =
  exec_mvn_version :: exec_result
  inputs :: "string \<Rightarrow> string"
  axios_post :: "post_request \<Rightarrow> axios_result"
  homedir :: string
  existsSync :: "string \<Rightarrow> bool"
  mkdirSync :: "string \<Rightarrow> string option"
  writeFileSync :: "string \<Rightarrow> string \<Rightarrow> string option"

text \<open>
  \<open>mkdirSync e dir\<close> and \<open>writeFileSync e file content\<close> are \<open>Some m\<close> when the call
  throws an error with message \<open>m\<close>, and \<open>None\<close> when it succeeds.
\<close>

datatype log_line = Info string | Debug string

datatype fs_op = Mkdir string | Write string string

record world =
  logged :: "log_line list"
  requests :: "post_request list"
  fs_ops :: "fs_op list"
  outputs :: "(string \<times> string) list"
  secrets :: "string list"
  failed :: "string option"

definition info :: "string \<Rightarrow> world \<Rightarrow> world" where
  "info m w = w\<lparr>logged := logged w @ [Info m]\<rparr>"

definition debug :: "string \<Rightarrow> world \<Rightarrow> world" where
  "debug m w = w\<lparr>logged := logged w @ [Debug m]\<rparr>"

definition setFailed :: "string \<Rightarrow> world \<Rightarrow> world" where
  "setFailed m w = w\<lparr>failed := Some m\<rparr>"

text \<open>\<open>setOutput\<close> and \<open>setSecret\<close> pass a string as it is and any other value through \<open>JSON.stringify\<close>.\<close>

fun toCommandValue :: "json \<Rightarrow> string" where
  "toCommandValue (JStr s) = s"
| "toCommandValue v = JSON_stringify v"

definition setOutput :: "string \<Rightarrow> json \<Rightarrow> world \<Rightarrow> world" where
  "setOutput name v w = w\<lparr>outputs := outputs w @ [(name, toCommandValue v)]\<rparr>"

definition setSecret :: "json \<Rightarrow> world \<Rightarrow> world" where
  "setSecret v w = w\<lparr>secrets := secrets w @ [toCommandValue v]\<rparr>"

text \<open>
  \<open>core.getInput(name, { required })\<close> of the toolkit: a required input that was not
  supplied (or is empty) throws; otherwise the value comes back trimmed.
\<close>

definition getInput :: "env \<Rightarrow> string \<Rightarrow> bool \<Rightarrow> string + string" where
  "getInput e name required =
     (let val = inputs e name
      in if required \<and> val = [] then Inl (''Input required and not supplied: '' @ name)
         else Inr (trim val))"

subsection \<open>\<open>path.dirname\<close>, \<open>path.join\<close> and \<open>path.isAbsolute\<close> (POSIX)\<close>

definition isAbsolute :: "string \<Rightarrow> bool" where
  "isAbsolute p = (case p of [] \<Rightarrow> False | c # cs \<Rightarrow> c = CHR ''/'')"

definition dirname :: "string \<Rightarrow> string" where
  "dirname p =
     (case p of
        [] \<Rightarrow> ''.''
      | c # cs \<Rightarrow>
          (case dropWhile (\<lambda>x. x \<noteq> CHR ''/'') (dropWhile (\<lambda>x. x = CHR ''/'') (rev cs)) of
             [] \<Rightarrow> if c = CHR ''/'' then ''/'' else ''.''
           | s # r \<Rightarrow> if c = CHR ''/'' \<and> r = [] then ''//'' else c # rev r))"

fun split_slash :: "string \<Rightarrow> string list" where
  "split_slash [] = [[]]"
| "split_slash (c # cs) =
     (if c = CHR ''/'' then [] # split_slash cs
      else (case split_slash cs of [] \<Rightarrow> [[c]] | s # ss \<Rightarrow> (c # s) # ss))"

text \<open>The segments kept so far are held last first.\<close>

fun normalize_segments :: "bool \<Rightarrow> string list \<Rightarrow> string list \<Rightarrow> string list" where
  "normalize_segments allowAboveRoot res [] = rev res"
| "normalize_segments allowAboveRoot res (seg # segs) =
     (if seg = [] \<or> seg = ''.'' then normalize_segments allowAboveRoot res segs
      else if seg = ''..'' then
        (case res of
           seg' # res' \<Rightarrow>
             if seg' \<noteq> ''..'' then normalize_segments allowAboveRoot res' segs
             else if allowAboveRoot then normalize_segments allowAboveRoot (''..'' # res) segs
             else normalize_segments allowAboveRoot res segs
         | [] \<Rightarrow>
             if allowAboveRoot then normalize_segments allowAboveRoot (''..'' # res) segs
             else normalize_segments allowAboveRoot res segs)
      else normalize_segments allowAboveRoot (seg # res) segs)"

definition normalize :: "string \<Rightarrow> string" where
  "normalize p =
     (if p = [] then ''.''
      else
        let isAbsolute = (hd p = CHR ''/'');
            trailingSeparator = (last p = CHR ''/'');
            q = join ''/'' (normalize_segments (\<not> isAbsolute) [] (split_slash p))
        in if q = [] then (if isAbsolute then ''/'' else if trailingSeparator then ''./'' else ''.'')
           else (if isAbsolute then ''/'' else []) @ q @ (if trailingSeparator then ''/'' else []))"

definition path_join :: "string list \<Rightarrow> string" where
  "path_join args =
     (case filter (\<lambda>a. a \<noteq> []) args of
        [] \<Rightarrow> ''.''
      | a # as \<Rightarrow> normalize (join ''/'' (a # as)))"

section \<open>\<open>checkMavenAvailable\<close>\<close>

definition first_line :: "string \<Rightarrow> string" where
  "first_line output = takeWhile (\<lambda>c. c \<noteq> CHR 0x0A) output"

definition checkMavenAvailable :: "env \<Rightarrow> world \<Rightarrow> bool \<times> world" where
  "checkMavenAvailable e w =
     (case exec_mvn_version e of
        Exited exitCode output \<Rightarrow>
          if exitCode = 0 then (True, info (''Maven is available: '' @ first_line output) w)
          else (False, w)
      | ExecFailed m \<Rightarrow> (False, debug (''Maven check failed: '' @ m) w))"

section \<open>\<open>getAccessToken\<close>\<close>

definition token_request :: "string \<Rightarrow> string \<Rightarrow> string \<Rightarrow> string \<Rightarrow> post_request" where
  "token_request tokenEndpoint clientId clientSecret scope =
     \<lparr>url = tokenEndpoint,
      params =
        [(''grant_type'', ''client_credentials''),
         (''client_id'', clientId),
         (''client_secret'', clientSecret)]
        @ (if scope \<noteq> [] then [(''scope'', scope)] else []),
      headers =
        [(''Content-Type'', ''application/x-www-form-urlencoded''),
         (''Accept'', ''application/json'')],
      timeout = 30000\<rparr>"

text \<open>\<open>new Error(m)\<close> carries neither a response nor a request.\<close>

definition js_Error :: "string \<Rightarrow> js_error" where
  "js_Error m = \<lparr>response = None, request = False, message = m\<rparr>"

text \<open>
  The errors \<open>getAccessToken\<close> throws, one constructor for each \<open>throw\<close> statement of
  its \<open>catch\<close> block, with what the statement puts into the message.
\<close>

datatype oauth_error =
    RequestFailed nat json
  | NoResponse string
  | RequestError string

fun message_of :: "oauth_error \<Rightarrow> string" where
  "message_of (RequestFailed st d) =
     ''OAuth request failed with status '' @ decimal st @ '': '' @ JSON_stringify d"
| "message_of (NoResponse m) = ''No response received from OAuth server: '' @ m"
| "message_of (RequestError m) = ''OAuth request error: '' @ m"

text \<open>The \<open>catch\<close> block: the error it throws for the error it caught.\<close>

definition oauth_catch :: "js_error \<Rightarrow> oauth_error" where
  "oauth_catch error =
     (case response error of
        Some r \<Rightarrow> RequestFailed (status r) (data r)
      | None \<Rightarrow> if request error then NoResponse (message error) else RequestError (message error))"

text \<open>
  The \<open>throw new Error('No access token in response')\<close> stands inside the \<open>try\<close>
  block, so the \<open>catch\<close> block receives it like an error of \<open>axios.post\<close>.
\<close>

definition getAccessToken ::
  "string \<Rightarrow> string \<Rightarrow> string \<Rightarrow> string \<Rightarrow> env \<Rightarrow> world \<Rightarrow> (oauth_error + json) \<times> world" where
  "getAccessToken tokenEndpoint clientId clientSecret scope e w =
     (let w1 = info ''Requesting OAuth access token...'' w;
          req = token_request tokenEndpoint clientId clientSecret scope;
          w2 = w1\<lparr>requests := requests w1 @ [req]\<rparr>
      in case axios_post e req of
           Resolved r \<Rightarrow>
             (case access_token (data r) of
                Some t \<Rightarrow>
                  if status r = 200 \<and> truthy (data r) \<and> truthy t
                  then (Inr t, info ''Successfully obtained access token'' w2)
                  else (Inl (oauth_catch (js_Error ''No access token in response'')), w2)
              | None \<Rightarrow> (Inl (oauth_catch (js_Error ''No access token in response'')), w2))
         | Rejected error \<Rightarrow> (Inl (oauth_catch error), w2))"

section \<open>\<open>createMavenSettings\<close>\<close>

text \<open>The template literal of \<open>src/index.js\<close>, line by line.\<close>

definition settingsXml :: "json \<Rightarrow> string \<Rightarrow> string option \<Rightarrow> string" where
  \<open>settingsXml accessToken serverId uploadServerId =
     ''<?xml version="1.0" encoding="UTF-8"?>\<newline>'' @
     ''<settings xmlns="http://maven.apache.org/SETTINGS/1.2.0"\<newline>'' @
     ''          xmlns:xsi="http://www.w3.org/2001/XMLSchema-instance"\<newline>'' @
     ''          xsi:schemaLocation="http://maven.apache.org/SETTINGS/1.2.0 \<newline>'' @
     ''                              http://maven.apache.org/xsd/settings-1.2.0.xsd">\<newline>'' @
     ''    <servers>\<newline>'' @
     ''        <server>\<newline>'' @
     ''        <id>'' @ serverId @ ''</id>\<newline>'' @
     ''        <configuration>\<newline>'' @
     ''            <httpHeaders>\<newline>'' @
     ''            <property>\<newline>'' @
     ''                <name>Authorization</name>\<newline>'' @
     ''                <value>Bearer '' @ js_String accessToken @ ''</value>\<newline>'' @
     ''            </property>\<newline>'' @
     ''            </httpHeaders>\<newline>'' @
     ''        </configuration>\<newline>'' @
     ''        </server>\<newline>'' @
     ''        <server>\<newline>'' @
     ''        <id>'' @ template_arg uploadServerId @ ''</id>\<newline>'' @
     ''        <configuration>\<newline>'' @
     ''            <httpHeaders>\<newline>'' @
     ''            <property>\<newline>'' @
     ''                <name>Authorization</name>\<newline>'' @
     ''                <value>Bearer '' @ js_String accessToken @ ''</value>\<newline>'' @
     ''            </property>\<newline>'' @
     ''            </httpHeaders>\<newline>'' @
     ''        </configuration>\<newline>'' @
     ''        </server>\<newline>'' @
     ''    </servers>\<newline>'' @
     ''    <mirrors>\<newline>'' @
     ''        <mirror>\<newline>'' @
     ''        <id>'' @ serverId @ ''</id>\<newline>'' @
     ''        <name>Curity Maven Repository</name>\<newline>'' @
     ''        <url>https://hub.curityio.net/repository/curity-dev-repo-group/</url>\<newline>'' @
     ''        <mirrorOf>*</mirrorOf>\<newline>'' @
     ''        </mirror>\<newline>'' @
     ''    </mirrors>\<newline>'' @
     ''</settings>''\<close>

definition createMavenSettings ::
  "json \<Rightarrow> string \<Rightarrow> string option \<Rightarrow> string \<Rightarrow> env \<Rightarrow> world \<Rightarrow> (string + string) \<times> world" where
  "createMavenSettings accessToken serverId uploadServerId settingsPath e w =
     (let w1 = info (''Creating Maven settings.xml at: '' @ settingsPath) w;
          xml = settingsXml accessToken serverId uploadServerId;
          settingsDir = dirname settingsPath
      in case (if \<not> existsSync e settingsDir then mkdirSync e settingsDir else None) of
           Some m \<Rightarrow> (Inl m, w1)
         | None \<Rightarrow>
             (let w2 = (if \<not> existsSync e settingsDir
                        then w1\<lparr>fs_ops := fs_ops w1 @ [Mkdir settingsDir]\<rparr> else w1)
              in case writeFileSync e settingsPath xml of
                   Some m \<Rightarrow> (Inl m, w2)
                 | None \<Rightarrow>
                     (Inr settingsPath,
                      info ''Maven settings.xml created successfully''
                        (w2\<lparr>fs_ops := fs_ops w2 @ [Write settingsPath xml]\<rparr>))))"

text \<open>
  The earlier \<open>createMavenSettings(accessToken, serverId, settingsPath)\<close>, of the second
  source file: three parameters, its own template.
\<close>

definition settingsXml_mirror :: "json \<Rightarrow> string \<Rightarrow> string" where
  \<open>settingsXml_mirror accessToken serverId =
     ''<?xml version="1.0" encoding="UTF-8"?>\<newline>'' @
     ''<settings xmlns="http://maven.apache.org/SETTINGS/1.2.0"\<newline>'' @
     ''          xmlns:xsi="http://www.w3.org/2001/XMLSchema-instance"\<newline>'' @
     ''          xsi:schemaLocation="http://maven.apache.org/SETTINGS/1.2.0 \<newline>'' @
     ''                              http://maven.apache.org/xsd/settings-1.2.0.xsd">\<newline>'' @
     ''    <mirrors>\<newline>'' @
     ''        <mirror>\<newline>'' @
     ''        <id>'' @ serverId @ ''</id>\<newline>'' @
     ''        <name>Curity Maven Repository</name>\<newline>'' @
     ''        <url>https://hub.curityio.net/repository/curity-release-repo/</url>\<newline>'' @
     ''        <mirrorOf>*</mirrorOf>\<newline>'' @
     ''        <configuration>\<newline>'' @
     ''            <httpHeaders>\<newline>'' @
     ''            <property>\<newline>'' @
     ''                <name>Authorization</name>\<newline>'' @
     ''                <value>Bearer '' @ js_String accessToken @ ''</value>\<newline>'' @
     ''            </property>\<newline>'' @
     ''            </httpHeaders>\<newline>'' @
     ''        </configuration>\<newline>'' @
     ''        </mirror>\<newline>'' @
     ''    </mirrors>\<newline>'' @
     ''</settings>''\<close>

definition createMavenSettings_mirror ::
  "json \<Rightarrow> string \<Rightarrow> string \<Rightarrow> env \<Rightarrow> world \<Rightarrow> (string + string) \<times> world" where
  "createMavenSettings_mirror accessToken serverId settingsPath e w =
     (let w1 = info (''Creating Maven settings.xml at: '' @ settingsPath) w;
          xml = settingsXml_mirror accessToken serverId;
          settingsDir = dirname settingsPath
      in case (if \<not> existsSync e settingsDir then mkdirSync e settingsDir else None) of
           Some m \<Rightarrow> (Inl m, w1)
         | None \<Rightarrow>
             (let w2 = (if \<not> existsSync e settingsDir
                        then w1\<lparr>fs_ops := fs_ops w1 @ [Mkdir settingsDir]\<rparr> else w1)
              in case writeFileSync e settingsPath xml of
                   Some m \<Rightarrow> (Inl m, w2)
                 | None \<Rightarrow>
                     (Inr settingsPath,
                      info ''Maven settings.xml created successfully''
                        (w2\<lparr>fs_ops := fs_ops w2 @ [Write settingsPath xml]\<rparr>))))"

section \<open>\<open>run\<close>\<close>

definition maven_unavailable_message :: string where
  "maven_unavailable_message =
     ''Maven is not available in the environment. Please use an action like actions/setup-java with Maven or setup-maven to install Maven first.''"

definition oauthServerUrl :: string where
  "oauthServerUrl = ''https://login.curity.io/internal/oauth-token''"

definition uploadServerUrl :: string where
  "uploadServerUrl = ''https://hub.curityio.net/repository/customer-release-repo/''"

text \<open>Every error thrown inside the \<open>try\<close> block ends in the one \<open>catch\<close> block.\<close>

definition run_catch :: "string \<Rightarrow> world \<Rightarrow> world" where
  "run_catch m w = setFailed (''Action failed: '' @ m) w"

definition run :: "env \<Rightarrow> world \<Rightarrow> world" where
  "run e w =
     (case checkMavenAvailable e w of
        (mavenAvailable, w1) \<Rightarrow>
          if \<not> mavenAvailable then setFailed maven_unavailable_message w1
          else
            (let clientId = ''curity-cli-github'';
                 scope = [];
                 serverId = ''curity-repo'';
                 settingsPath = path_join [homedir e, ''.m2'', ''settings.xml''];
                 uploadServerId = ''curity-upload-repo''
             in case getInput e ''client-secret'' True of
                  Inl m \<Rightarrow> run_catch m w1
                | Inr clientSecret \<Rightarrow>
                    if trim clientSecret = [] then run_catch ''client-secret cannot be empty'' w1
                    else
                      (case getAccessToken oauthServerUrl clientId clientSecret scope e w1 of
                         (Inl err, w2) \<Rightarrow> run_catch (message_of err) w2
                       | (Inr accessToken, w2) \<Rightarrow>
                           (case createMavenSettings accessToken serverId (Some uploadServerId)
                                   settingsPath e w2 of
                              (Inl m, w3) \<Rightarrow> run_catch m w3
                            | (Inr createdSettingsPath, w3) \<Rightarrow>
                                info ''Action completed successfully''
                                  (setOutput ''maven-deploy-args''
                                     (JStr (''-DaltDeploymentRepository={'' @ uploadServerId
                                            @ ''}::default::'' @ uploadServerUrl))
                                     (setOutput ''access-token'' accessToken
                                        (setSecret accessToken
                                           (setOutput ''settings-file'' (JStr createdSettingsPath)
                                              w3))))))))"

section \<open>A concrete invocation\<close>

text \<open>
  A runner with Maven installed, the secret \<open>s3cret\<close>, a token endpoint that answers
  200 with the token \<open>T\<close>, and a home directory without \<open>.m2\<close>.
\<close>

definition example_env :: env where
  "example_env =
     \<lparr>exec_mvn_version = Exited 0 ''Apache Maven 3.9.6'',
      inputs = (\<lambda>name. if name = ''client-secret'' then ''s3cret'' else []),
      axios_post = (\<lambda>req. Resolved \<lparr>status = 200, data = JObj [(''access_token'', JStr ''T'')]\<rparr>),
      homedir = ''/home/runner'',
      existsSync = (\<lambda>p. False),
      mkdirSync = (\<lambda>p. None),
      writeFileSync = (\<lambda>p content. None)\<rparr>"

definition empty_world :: world where
  "empty_world =
     \<lparr>logged = [], requests = [], fs_ops = [], outputs = [], secrets = [], failed = None\<rparr>"

section \<open>What axios makes of an answer\<close>


section \<open>Reading a settings document back\<close>

text \<open>
  The reader of the documents the templates produce: a prolog, elements (their attributes
  are skipped), and character data in which \<open>&lt;\<close>, \<open>&gt;\<close>, \<open>&amp;\<close>, \<open>&quot;\<close> and
  \<open>&apos;\<close> stand for the five special characters. A \<open><\<close> or an \<open>&\<close> that is not part
  of these makes the document unreadable (\<open>None\<close>), as it makes it ill-formed XML. Tag
  names and characters are taken as they are, without a check against the names and
  the character range of XML. Comments, CDATA sections, character references by number
  and empty-element tags do not occur in the templates and are not read.
\<close>

text \<open>
  What stands between \<open><\<close> and \<open>>\<close>: \<open>?...\<close> is a prolog, \<open>/name\<close> closes an
  element and anything else opens one.
\<close>

datatype xml_token = OpenTag string | CloseTag string | Prolog string

definition xml_space :: "char \<Rightarrow> bool" where
  "xml_space c \<longleftrightarrow> c = CHR '' '' \<or> c = CHR 0x0A \<or> c = CHR 0x09 \<or> c = CHR 0x0D"

fun tag_token :: "string \<Rightarrow> xml_token option" where
  "tag_token [] = None"
| "tag_token (c # cs) =
     (if c = CHR ''?'' then Some (Prolog cs)
      else if c = CHR ''/'' then (if cs = [] then None else Some (CloseTag cs))
      else Some (OpenTag (c # cs)))"

text \<open>Character data to the text it stands for.\<close>

function xml_unescape :: "string \<Rightarrow> string option" where
  "xml_unescape [] = Some []"
| "xml_unescape (c # cs) =
     (if c = CHR ''&'' then
        (if prefix ''lt;'' cs then map_option (Cons CHR ''<'') (xml_unescape (drop 3 cs))
         else if prefix ''gt;'' cs then map_option (Cons CHR ''>'') (xml_unescape (drop 3 cs))
         else if prefix ''amp;'' cs then map_option (Cons CHR ''&'') (xml_unescape (drop 4 cs))
         else if prefix ''quot;'' cs then map_option (Cons CHR 0x22) (xml_unescape (drop 5 cs))
         else if prefix ''apos;'' cs then map_option (Cons CHR 0x27) (xml_unescape (drop 5 cs))
         else None)
      else map_option (Cons c) (xml_unescape cs))"
  by pat_completeness auto
termination
  by (relation "measure length") auto

datatype xml = Element string "xml list" | Text string

text \<open>
  The reader goes through the document once. Its state is the stack of the elements that
  are open, each with the children read so far (last first), and where it is: in
  character data, in the name of a tag, or behind the name, where everything up to
  \<open>>\<close> is skipped. The characters read so far are held last first. The bottom frame
  of the stack is the document itself; the prolog is accepted at its very beginning only.
\<close>

datatype lex_state = InText string | InTag string | InAttrs string

type_synonym frames = "(string \<times> xml list) list"

fun add_text :: "string option \<Rightarrow> frames \<Rightarrow> frames option" where
  "add_text (Some t) ((n, cs) # stack) = Some ((n, Text t # cs) # stack)"
| "add_text (Some t) [] = None"
| "add_text None stack = None"

fun apply_tag :: "xml_token option \<Rightarrow> frames \<Rightarrow> frames option" where
  "apply_tag (Some (OpenTag n)) stack = Some ((n, []) # stack)"
| "apply_tag (Some (CloseTag n)) ((m, cs) # (p, ds) # stack) =
     (if m = n then Some ((p, Element m (rev cs) # ds) # stack) else None)"
| "apply_tag (Some (CloseTag n)) [f] = None"
| "apply_tag (Some (CloseTag n)) [] = None"
| "apply_tag (Some (Prolog p)) stack = (if stack = [([], [Text []])] then Some stack else None)"
| "apply_tag None stack = None"

fun scan :: "frames \<Rightarrow> lex_state \<Rightarrow> string \<Rightarrow> (frames \<times> lex_state) option" where
  "scan stack st [] = Some (stack, st)"
| "scan stack (InText acc) (c # cs) =
     (if c = CHR ''<'' then
        (case add_text (xml_unescape (rev acc)) stack of
           None \<Rightarrow> None
         | Some stack' \<Rightarrow> scan stack' (InTag []) cs)
      else scan stack (InText (c # acc)) cs)"
| "scan stack (InTag acc) (c # cs) =
     (if c = CHR ''>'' then
        (case apply_tag (tag_token (rev acc)) stack of
           None \<Rightarrow> None
         | Some stack' \<Rightarrow> scan stack' (InText []) cs)
      else if c = CHR ''<'' then None
      else if xml_space c then scan stack (InAttrs (rev acc)) cs
      else scan stack (InTag (c # acc)) cs)"
| "scan stack (InAttrs name) (c # cs) =
     (if c = CHR ''>'' then
        (case apply_tag (tag_token name) stack of
           None \<Rightarrow> None
         | Some stack' \<Rightarrow> scan stack' (InText []) cs)
      else if c = CHR ''<'' then None
      else scan stack (InAttrs name) cs)"

fun is_blank_text :: "xml \<Rightarrow> bool" where
  "is_blank_text (Text t) = list_all xml_space t"
| "is_blank_text (Element n cs) = False"

text \<open>
  A document is read when every element is closed again and exactly one element, with
  nothing but white space around it, is left at the top.
\<close>

definition read_xml :: "string \<Rightarrow> xml option" where
  "read_xml doc =
     (case scan [([], [])] (InText []) doc of
        Some ([(n, cs)], InText acc) \<Rightarrow>
          (case filter (\<lambda>x. \<not> is_blank_text x) (Text (rev acc) # cs) of
             [Element m ds] \<Rightarrow> Some (Element m ds)
           | _ \<Rightarrow> None)
      | _ \<Rightarrow> None)"

subsection \<open>The settings in a document\<close>

fun child_elements :: "string \<Rightarrow> xml \<Rightarrow> xml list" where
  "child_elements n (Element m cs) = filter (\<lambda>x. case x of Element k ds \<Rightarrow> k = n | Text t \<Rightarrow> False) cs"
| "child_elements n (Text t) = []"

fun text_of :: "xml \<Rightarrow> string" where
  "text_of (Element m cs) = concat (map (\<lambda>x. case x of Text t \<Rightarrow> t | Element k ds \<Rightarrow> []) cs)"
| "text_of (Text t) = t"

fun select :: "string list \<Rightarrow> xml \<Rightarrow> xml list" where
  "select [] x = [x]"
| "select (n # ns) x = concat (map (select ns) (child_elements n x))"

definition child_text :: "string \<Rightarrow> xml \<Rightarrow> string" where
  "child_text n x = concat (map text_of (child_elements n x))"

definition http_headers :: "xml \<Rightarrow> (string \<times> string) list" where
  "http_headers x =
     map (\<lambda>p. (child_text ''name'' p, child_text ''value'' p))
       (select [''configuration'', ''httpHeaders'', ''property''] x)"

record server_entry =
  server_id :: string
  server_headers :: "(string \<times> string) list"

record mirror_entry =
  mirror_id :: string
  mirror_name :: string
  mirror_url :: string
  mirror_of :: string
  mirror_headers :: "(string \<times> string) list"

record settings =
  servers :: "server_entry list"
  mirrors :: "mirror_entry list"

definition settings_of :: "xml \<Rightarrow> settings" where
  "settings_of root =
     \<lparr>servers =
        map (\<lambda>s. \<lparr>server_id = child_text ''id'' s, server_headers = http_headers s\<rparr>)
          (select [''servers'', ''server''] root),
      mirrors =
        map (\<lambda>m. \<lparr>mirror_id = child_text ''id'' m, mirror_name = child_text ''name'' m,
                   mirror_url = child_text ''url'' m, mirror_of = child_text ''mirrorOf'' m,
                   mirror_headers = http_headers m\<rparr>)
          (select [''mirrors'', ''mirror''] root)\<rparr>"

definition read_settings :: "string \<Rightarrow> settings option" where
  "read_settings doc =
     (case read_xml doc of
        Some (Element n cs) \<Rightarrow> if n = ''settings'' then Some (settings_of (Element n cs)) else None
      | _ \<Rightarrow> None)"

text \<open>
  A string without any of the characters \<open>&\<close>, \<open><\<close> and \<open>>\<close> and without control
  characters (which XML does not admit, or reads as a line end).
\<close>

definition xml_plain_char :: "char \<Rightarrow> bool" where
  "xml_plain_char c \<longleftrightarrow>
     c \<noteq> CHR ''&'' \<and> c \<noteq> CHR ''<'' \<and> c \<noteq> CHR ''>'' \<and> 32 \<le> (of_char c :: nat)"

definition xml_plain :: "string \<Rightarrow> bool" where
  "xml_plain s = list_all xml_plain_char s"

text \<open>The two variants of the document, as the specification describes them.\<close>

definition single_mirror_variant :: "settings \<Rightarrow> bool" where
  "single_mirror_variant s \<longleftrightarrow>
     servers s = [] \<and> length (mirrors s) = 1
     \<and> list_all (\<lambda>m. map fst (mirror_headers m) = [''Authorization'']) (mirrors s)"

definition dual_server_variant :: "settings \<Rightarrow> bool" where
  "dual_server_variant s \<longleftrightarrow>
     length (servers s) = 2
     \<and> list_all (\<lambda>x. map fst (server_headers x) = [''Authorization'']) (servers s)
     \<and> length (mirrors s) = 1"


text \<open>The repository of the template of \<open>src/index.js\<close>, and the one of the earlier template.\<close>

definition dev_repository_url :: string where
  "dev_repository_url = ''https://hub.curityio.net/repository/curity-dev-repo-group/''"

definition release_repository_url :: string where
  "release_repository_url = ''https://hub.curityio.net/repository/curity-release-repo/''"

text \<open>
  The two continuations of \<open>scan\<close>, after a text and after a tag, named so that its
  equations can be stated one case at a time.
\<close>

definition text_end :: "string option \<Rightarrow> frames \<Rightarrow> string \<Rightarrow> (frames \<times> lex_state) option" where
  "text_end t stack cs =
     (case add_text t stack of None \<Rightarrow> None | Some stack' \<Rightarrow> scan stack' (InTag []) cs)"

definition tag_end :: "xml_token option \<Rightarrow> frames \<Rightarrow> string \<Rightarrow> (frames \<times> lex_state) option" where
  "tag_end k stack cs =
     (case apply_tag k stack of None \<Rightarrow> None | Some stack' \<Rightarrow> scan stack' (InText []) cs)"

section \<open>Properties of the availability probe and of the checks before the request\<close>




lemma checkMavenAvailable_requests: "requests (snd (checkMavenAvailable e w)) = requests w"
  by (simp add: checkMavenAvailable_def info_def debug_def split: exec_result.split)

lemma checkMavenAvailable_failed: "failed (snd (checkMavenAvailable e w)) = failed w"
  by (simp add: checkMavenAvailable_def info_def debug_def split: exec_result.split)

lemma checkMavenAvailable_fs_ops: "fs_ops (snd (checkMavenAvailable e w)) = fs_ops w"
  by (simp add: checkMavenAvailable_def info_def debug_def split: exec_result.split)

lemma checkMavenAvailable_outputs: "outputs (snd (checkMavenAvailable e w)) = outputs w"
  by (simp add: checkMavenAvailable_def info_def debug_def split: exec_result.split)

lemma run_end_to_end:
  "failed (run example_env empty_world) = None
   \<and> requests (run example_env empty_world)
       = [token_request oauthServerUrl ''curity-cli-github'' ''s3cret'' []]
   \<and> fs_ops (run example_env empty_world)
       = [Mkdir ''/home/runner/.m2'',
          Write ''/home/runner/.m2/settings.xml''
            (settingsXml (JStr ''T'') ''curity-repo'' (Some ''curity-upload-repo''))]
   \<and> outputs (run example_env empty_world)
       = [(''settings-file'', ''/home/runner/.m2/settings.xml''),
          (''access-token'', ''T''),
          (''maven-deploy-args'',
           ''-DaltDeploymentRepository={curity-upload-repo}::default::https://hub.curityio.net/repository/customer-release-repo/'')]
   \<and> secrets (run example_env empty_world) = [''T'']"
  by (simp add: run_def example_env_def empty_world_def checkMavenAvailable_def getInput_def
      trim_def is_whitespace_def getAccessToken_def createMavenSettings_def info_def
      setOutput_def setSecret_def path_join_def normalize_def dirname_def uploadServerUrl_def
      Let_def)


text \<open>
  C7. Whenever the availability probe fails, \<open>run\<close> reports the "Maven is not
  available" failure and returns before any token request: no request is issued, no
  file is touched and no output is set.
\<close>

theorem run_tool_unavailable:
  assumes "\<not> fst (checkMavenAvailable e w)"
  shows "failed (run e w) = Some maven_unavailable_message
         \<and> requests (run e w) = requests w
         \<and> fs_ops (run e w) = fs_ops w
         \<and> outputs (run e w) = outputs w"
proof -
  obtain b w1 where probe: "checkMavenAvailable e w = (b, w1)"
    by (cases "checkMavenAvailable e w")
  with assms have "\<not> b" by simp
  with probe have r: "run e w = setFailed maven_unavailable_message w1"
    by (simp add: run_def)
  from probe have "requests w1 = requests w" "fs_ops w1 = fs_ops w" "outputs w1 = outputs w"
    using checkMavenAvailable_requests [of e w] checkMavenAvailable_fs_ops [of e w]
      checkMavenAvailable_outputs [of e w] by simp_all
  with r show ?thesis by (simp add: setFailed_def)
qed

theorem run_tool_unavailable_witness:
  "\<not> fst (checkMavenAvailable (example_env\<lparr>exec_mvn_version := ExecFailed ''spawn mvn ENOENT''\<rparr>) empty_world)
   \<and> failed (run (example_env\<lparr>exec_mvn_version := ExecFailed ''spawn mvn ENOENT''\<rparr>) empty_world)
       = Some maven_unavailable_message
   \<and> requests (run (example_env\<lparr>exec_mvn_version := ExecFailed ''spawn mvn ENOENT''\<rparr>) empty_world) = []"
proof -
  have h: "\<not> fst (checkMavenAvailable (example_env\<lparr>exec_mvn_version := ExecFailed ''spawn mvn ENOENT''\<rparr>) empty_world)"
    by (simp add: checkMavenAvailable_def example_env_def)
  show ?thesis
    using h run_tool_unavailable [OF h] by (simp add: empty_world_def)
qed



section \<open>Properties of the token request\<close>

lemma getAccessToken_Resolved_no_token:
  assumes "axios_post e (token_request tokenEndpoint clientId clientSecret scope) = Resolved r"
    and "status r \<noteq> 200 \<or> (\<forall>t. access_token (data r) = Some t \<longrightarrow> \<not> truthy t)"
  shows "fst (getAccessToken tokenEndpoint clientId clientSecret scope e w)
           = Inl (RequestError ''No access token in response'')"
  using assms
  by (auto simp: getAccessToken_def Let_def oauth_catch_def js_Error_def split: option.split)


lemma getAccessToken_requests:
  "requests (snd (getAccessToken tokenEndpoint clientId clientSecret scope e w))
     = requests w @ [token_request tokenEndpoint clientId clientSecret scope]"
  by (simp add: getAccessToken_def Let_def info_def split: axios_result.split option.split)

text \<open>
  C3 (as amended). For every answer with status 200 whose body has no \<open>access_token\<close>
  or an empty one, \<open>getAccessToken\<close> fails with "OAuth request error: No access token
  in response". The error is thrown inside the \<open>try\<close> block and re-thrown by the last
  branch of the \<open>catch\<close> block, the branch of every other local error: the failure is a
  \<open>RequestError\<close>, not a kind of its own. It differs from every failure of the
  no-response and of the rejected-response branch.
\<close>

theorem getAccessToken_no_token:
  assumes "axios_post e (token_request tokenEndpoint clientId clientSecret scope) = Resolved r"
    and "status r = 200"
    and "access_token (data r) = None \<or> access_token (data r) = Some (JStr [])"
  shows "fst (getAccessToken tokenEndpoint clientId clientSecret scope e w)
           = Inl (RequestError ''No access token in response'')
         \<and> message_of (RequestError ''No access token in response'')
             = ''OAuth request error: No access token in response''
         \<and> (\<forall>m. message_of (RequestError ''No access token in response'')
                  \<noteq> message_of (NoResponse m))
         \<and> (\<forall>st d. message_of (RequestError ''No access token in response'')
                  \<noteq> message_of (RequestFailed st d))"
proof -
  from assms(3) have "\<forall>t. access_token (data r) = Some t \<longrightarrow> \<not> truthy t"
    by auto
  with assms(1) have "fst (getAccessToken tokenEndpoint clientId clientSecret scope e w)
      = Inl (RequestError ''No access token in response'')"
    by (intro getAccessToken_Resolved_no_token) auto
  then show ?thesis by simp
qed

theorem getAccessToken_no_token_witness:
  "axios_post (example_env\<lparr>axios_post := \<lambda>req. Resolved \<lparr>status = 200, data = JObj [(''token_type'', JStr ''Bearer'')]\<rparr>\<rparr>)
      (token_request oauthServerUrl ''curity-cli-github'' ''s3cret'' [])
     = Resolved \<lparr>status = 200, data = JObj [(''token_type'', JStr ''Bearer'')]\<rparr>
   \<and> access_token (JObj [(''token_type'', JStr ''Bearer'')]) = None
   \<and> fst (getAccessToken oauthServerUrl ''curity-cli-github'' ''s3cret'' []
         (example_env\<lparr>axios_post := \<lambda>req. Resolved \<lparr>status = 200, data = JObj [(''token_type'', JStr ''Bearer'')]\<rparr>\<rparr>)
         empty_world)
       = Inl (RequestError ''No access token in response'')"
  using getAccessToken_no_token
    [of "example_env\<lparr>axios_post := \<lambda>req. Resolved \<lparr>status = 200, data = JObj [(''token_type'', JStr ''Bearer'')]\<rparr>\<rparr>"
        oauthServerUrl "''curity-cli-github''" "''s3cret''" "[]"
        "\<lparr>status = 200, data = JObj [(''token_type'', JStr ''Bearer'')]\<rparr>" empty_world]
  by simp

text \<open>
  C3 as stated fails: for the answer 200 with the body \<open>{}\<close> the failure is the one the
  \<open>catch\<close> block makes of a plain local error, a \<open>RequestError\<close>.
\<close>

theorem getAccessToken_malformed_counterexample:
  "fst (getAccessToken oauthServerUrl ''curity-cli-github'' ''s3cret'' []
         (example_env\<lparr>axios_post := \<lambda>req. Resolved \<lparr>status = 200, data = JObj []\<rparr>\<rparr>) empty_world)
     = Inl (oauth_catch \<lparr>response = None, request = False, message = ''No access token in response''\<rparr>)
   \<and> oauth_catch \<lparr>response = None, request = False, message = ''No access token in response''\<rparr>
     = RequestError ''No access token in response''"
  by (simp add: getAccessToken_def Let_def oauth_catch_def js_Error_def)






section \<open>Properties of \<open>createMavenSettings\<close>\<close>

lemma createMavenSettings_success:
  assumes "fst (createMavenSettings accessToken serverId uploadServerId settingsPath e w) = Inr r"
  shows "r = settingsPath"
    and "fs_ops (snd (createMavenSettings accessToken serverId uploadServerId settingsPath e w))
           = fs_ops w
             @ (if existsSync e (dirname settingsPath) then [] else [Mkdir (dirname settingsPath)])
             @ [Write settingsPath (settingsXml accessToken serverId uploadServerId)]"
  using assms
  by (auto simp: createMavenSettings_def Let_def info_def split: option.splits if_splits)

lemma createMavenSettings_mirror_success:
  assumes "fst (createMavenSettings_mirror accessToken serverId settingsPath e w) = Inr r"
  shows "r = settingsPath"
    and "fs_ops (snd (createMavenSettings_mirror accessToken serverId settingsPath e w))
           = fs_ops w
             @ (if existsSync e (dirname settingsPath) then [] else [Mkdir (dirname settingsPath)])
             @ [Write settingsPath (settingsXml_mirror accessToken serverId)]"
  using assms
  by (auto simp: createMavenSettings_mirror_def Let_def info_def split: option.splits if_splits)

text \<open>
  C8 (as amended). When rendering succeeds, \<open>createMavenSettings\<close> returns the target
  path exactly as it was given, without resolving it: the returned path is absolute
  exactly when the given path is.
\<close>

theorem createMavenSettings_returns_given_path:
  assumes "fst (createMavenSettings accessToken serverId uploadServerId settingsPath e w) = Inr r"
  shows "r = settingsPath \<and> (isAbsolute r \<longleftrightarrow> isAbsolute settingsPath)"
  using createMavenSettings_success(1) [OF assms] by simp

theorem createMavenSettings_returns_given_path_witness:
  "fst (createMavenSettings (JStr ''T'') ''curity-repo'' (Some ''curity-upload-repo'')
          ''/home/runner/.m2/settings.xml'' example_env empty_world)
     = Inr ''/home/runner/.m2/settings.xml''
   \<and> isAbsolute ''/home/runner/.m2/settings.xml''"
proof -
  have h: "fst (createMavenSettings (JStr ''T'') ''curity-repo'' (Some ''curity-upload-repo'')
          ''/home/runner/.m2/settings.xml'' example_env empty_world)
     = Inr ''/home/runner/.m2/settings.xml''"
    by (simp add: createMavenSettings_def Let_def example_env_def)
  show ?thesis
    using h createMavenSettings_returns_given_path [OF h] by (simp add: isAbsolute_def)
qed

text \<open>
  C8 as stated fails: for the relative path \<open>settings.xml\<close> the returned path is
  \<open>settings.xml\<close> again, which is not absolute.
\<close>

theorem createMavenSettings_relative_path_counterexample:
  "fst (createMavenSettings (JStr ''T'') ''curity-repo'' (Some ''curity-upload-repo'')
          ''settings.xml'' (example_env\<lparr>existsSync := \<lambda>p. p = ''.''\<rparr>) empty_world)
     = Inr ''settings.xml''
   \<and> \<not> isAbsolute ''settings.xml''"
  by (simp add: createMavenSettings_def Let_def example_env_def isAbsolute_def)

text \<open>
  C10. The document \<open>createMavenSettings\<close> writes is a function of the token and the
  server ids alone: any two successful calls with equal arguments, in whatever environment
  and after whatever earlier effects, write the same content to the same path, namely
  \<open>settingsXml\<close> of the arguments.
\<close>

theorem createMavenSettings_deterministic:
  assumes "fst (createMavenSettings accessToken serverId uploadServerId settingsPath e1 w1) = Inr r1"
    and "fst (createMavenSettings accessToken serverId uploadServerId settingsPath e2 w2) = Inr r2"
  shows "last (fs_ops (snd (createMavenSettings accessToken serverId uploadServerId settingsPath e1 w1)))
           = Write settingsPath (settingsXml accessToken serverId uploadServerId)
         \<and> last (fs_ops (snd (createMavenSettings accessToken serverId uploadServerId settingsPath e2 w2)))
           = last (fs_ops (snd (createMavenSettings accessToken serverId uploadServerId settingsPath e1 w1)))"
  using createMavenSettings_success(2) [OF assms(1)] createMavenSettings_success(2) [OF assms(2)]
  by simp

theorem createMavenSettings_deterministic_witness:
  "fst (createMavenSettings (JStr ''T'') ''curity-repo'' (Some ''curity-upload-repo'')
          ''/home/runner/.m2/settings.xml'' example_env empty_world)
     = Inr ''/home/runner/.m2/settings.xml''
   \<and> fst (createMavenSettings (JStr ''T'') ''curity-repo'' (Some ''curity-upload-repo'')
          ''/home/runner/.m2/settings.xml'' (example_env\<lparr>existsSync := \<lambda>p. True\<rparr>)
          (empty_world\<lparr>fs_ops := [Write ''/home/runner/.m2/settings.xml'' ''old'']\<rparr>))
     = Inr ''/home/runner/.m2/settings.xml''
   \<and> last (fs_ops (snd (createMavenSettings (JStr ''T'') ''curity-repo'' (Some ''curity-upload-repo'')
          ''/home/runner/.m2/settings.xml'' (example_env\<lparr>existsSync := \<lambda>p. True\<rparr>)
          (empty_world\<lparr>fs_ops := [Write ''/home/runner/.m2/settings.xml'' ''old'']\<rparr>))))
     = last (fs_ops (snd (createMavenSettings (JStr ''T'') ''curity-repo'' (Some ''curity-upload-repo'')
          ''/home/runner/.m2/settings.xml'' example_env empty_world)))"
proof -
  have h1: "fst (createMavenSettings (JStr ''T'') ''curity-repo'' (Some ''curity-upload-repo'')
          ''/home/runner/.m2/settings.xml'' example_env empty_world)
     = Inr ''/home/runner/.m2/settings.xml''"
    by (simp add: createMavenSettings_def Let_def example_env_def)
  have h2: "fst (createMavenSettings (JStr ''T'') ''curity-repo'' (Some ''curity-upload-repo'')
          ''/home/runner/.m2/settings.xml'' (example_env\<lparr>existsSync := \<lambda>p. True\<rparr>)
          (empty_world\<lparr>fs_ops := [Write ''/home/runner/.m2/settings.xml'' ''old'']\<rparr>))
     = Inr ''/home/runner/.m2/settings.xml''"
    by (simp add: createMavenSettings_def Let_def example_env_def)
  show ?thesis
    using h1 h2 createMavenSettings_deterministic [OF h1 h2] by simp
qed


section \<open>Properties of the settings document\<close>

lemma scan_text_lt:
  "scan stack (InText acc) (CHR ''<'' # cs) = text_end (xml_unescape (rev acc)) stack cs"
  by (simp add: text_end_def)

lemma scan_text_char:
  "c \<noteq> CHR ''<'' \<Longrightarrow> scan stack (InText acc) (c # cs) = scan stack (InText (c # acc)) cs"
  by simp

lemma scan_tag_gt:
  "scan stack (InTag acc) (CHR ''>'' # cs) = tag_end (tag_token (rev acc)) stack cs"
  by (simp add: tag_end_def)

lemma scan_tag_space:
  "xml_space c \<Longrightarrow> scan stack (InTag acc) (c # cs) = scan stack (InAttrs (rev acc)) cs"
  by (auto simp: xml_space_def)

lemma scan_tag_char:
  "c \<noteq> CHR ''>'' \<Longrightarrow> c \<noteq> CHR ''<'' \<Longrightarrow> \<not> xml_space c \<Longrightarrow>
   scan stack (InTag acc) (c # cs) = scan stack (InTag (c # acc)) cs"
  by simp

lemma scan_attrs_gt:
  "scan stack (InAttrs name) (CHR ''>'' # cs) = tag_end (tag_token name) stack cs"
  by (simp add: tag_end_def)

lemma scan_attrs_char:
  "c \<noteq> CHR ''>'' \<Longrightarrow> c \<noteq> CHR ''<'' \<Longrightarrow>
   scan stack (InAttrs name) (c # cs) = scan stack (InAttrs name) cs"
  by simp

lemma text_end_Some:
  "text_end (Some t) ((n, ns) # stack) cs = scan ((n, Text t # ns) # stack) (InTag []) cs"
  by (simp add: text_end_def)

lemma text_end_None: "text_end None stack cs = None"
  by (simp add: text_end_def)

lemma tag_end_open:
  "tag_end (Some (OpenTag n)) stack cs = scan ((n, []) # stack) (InText []) cs"
  by (simp add: tag_end_def)

lemma tag_end_close:
  "tag_end (Some (CloseTag n)) ((n, ms) # (p, ps) # stack) cs
     = scan ((p, Element n (rev ms) # ps) # stack) (InText []) cs"
  by (simp add: tag_end_def)

lemma tag_end_close_mismatch:
  "m \<noteq> n \<Longrightarrow> tag_end (Some (CloseTag n)) ((m, ms) # (p, ps) # stack) cs = None"
  by (simp add: tag_end_def)

lemma tag_end_prolog:
  "tag_end (Some (Prolog q)) [([], [Text []])] cs = scan [([], [Text []])] (InText []) cs"
  by (simp add: tag_end_def)

lemma tag_end_None: "tag_end None stack cs = None"
  by (simp add: tag_end_def)

lemmas scan_steps =
  scan.simps(1) scan_text_lt scan_text_char scan_tag_gt scan_tag_space scan_tag_char
  scan_attrs_gt scan_attrs_char text_end_Some text_end_None tag_end_open tag_end_close
  tag_end_close_mismatch tag_end_prolog tag_end_None

lemma scan_plain:
  "xml_plain s \<Longrightarrow> scan stack (InText acc) (s @ cs) = scan stack (InText (rev s @ acc)) cs"
  by (induction s arbitrary: acc) (simp_all add: xml_plain_def xml_plain_char_def)

lemma xml_unescape_char:
  "c \<noteq> CHR ''&'' \<Longrightarrow> xml_unescape (c # cs) = map_option (Cons c) (xml_unescape cs)"
  by simp

lemma xml_unescape_plain: "xml_plain s \<Longrightarrow> xml_unescape s = Some s"
  by (induction s) (simp_all add: xml_plain_def xml_plain_char_def)


lemma scan_tag_lt: "scan stack (InTag acc) (CHR ''<'' # cs) = None"
  by simp

lemma scan_attrs_lt: "scan stack (InAttrs name) (CHR ''<'' # cs) = None"
  by simp

lemma xml_plain_simps:
  "xml_plain []"
  "xml_plain (c # cs) \<longleftrightarrow> xml_plain_char c \<and> xml_plain cs"
  by (simp_all add: xml_plain_def)

lemmas read_simps =
  read_settings_def read_xml_def scan_steps scan_tag_lt scan_attrs_lt scan_plain
  xml_unescape_char xml_unescape_plain xml_space_def settings_of_def http_headers_def
  child_text_def

lemma read_settings_settingsXml:
  assumes "xml_plain (js_String accessToken)" "xml_plain serverId"
    "xml_plain (template_arg uploadServerId)"
  shows "read_settings (settingsXml accessToken serverId uploadServerId) =
    Some \<lparr>servers =
            [\<lparr>server_id = serverId,
              server_headers = [(''Authorization'', ''Bearer '' @ js_String accessToken)]\<rparr>,
             \<lparr>server_id = template_arg uploadServerId,
              server_headers = [(''Authorization'', ''Bearer '' @ js_String accessToken)]\<rparr>],
          mirrors =
            [\<lparr>mirror_id = serverId,
              mirror_name = ''Curity Maven Repository'',
              mirror_url = dev_repository_url,
              mirror_of = ''*'',
              mirror_headers = []\<rparr>]\<rparr>"
  using assms
  by (simp add: settingsXml_def dev_repository_url_def read_simps
      del: scan.simps(2,3,4) xml_unescape.simps(2))

lemma read_settings_settingsXml_mirror:
  assumes "xml_plain (js_String accessToken)" "xml_plain serverId"
  shows "read_settings (settingsXml_mirror accessToken serverId) =
    Some \<lparr>servers = [],
          mirrors =
            [\<lparr>mirror_id = serverId,
              mirror_name = ''Curity Maven Repository'',
              mirror_url = release_repository_url,
              mirror_of = ''*'',
              mirror_headers = [(''Authorization'', ''Bearer '' @ js_String accessToken)]\<rparr>]\<rparr>"
  using assms
  by (simp add: settingsXml_mirror_def release_repository_url_def read_simps
      del: scan.simps(2,3,4) xml_unescape.simps(2))

lemma xml_plain_literals:
  "xml_plain ''curity-repo''" "xml_plain ''curity-upload-repo''" "xml_plain ''undefined''"
  "xml_plain ''T''" "xml_plain ''abc123''"
  by (simp_all add: xml_plain_simps xml_plain_char_def)




text \<open>
  C2 (as amended). Nothing selects a variant. The \<open>createMavenSettings\<close> of
  \<open>src/index.js\<close> renders the dual-server document for every \<open>uploadServerId\<close>, absent
  or present (an absent one becomes the server id \<open>undefined\<close>), never the single-mirror
  one; the single-mirror document is what the earlier three-parameter
  \<open>createMavenSettings\<close> renders, which has no \<open>uploadServerId\<close>.
\<close>

theorem settingsXml_variants:
  assumes "xml_plain (js_String accessToken)" and "xml_plain serverId"
    and "xml_plain (template_arg uploadServerId)"
  shows "map_option dual_server_variant
           (read_settings (settingsXml accessToken serverId uploadServerId)) = Some True
         \<and> map_option single_mirror_variant
           (read_settings (settingsXml accessToken serverId uploadServerId)) = Some False
         \<and> map_option single_mirror_variant
           (read_settings (settingsXml_mirror accessToken serverId)) = Some True"
  using read_settings_settingsXml [OF assms] read_settings_settingsXml_mirror [OF assms(1,2)]
  by (simp add: dual_server_variant_def single_mirror_variant_def)

theorem settingsXml_variants_witness:
  "xml_plain (js_String (JStr ''T'')) \<and> xml_plain ''curity-repo'' \<and> xml_plain (template_arg None)
   \<and> map_option dual_server_variant
        (read_settings (settingsXml (JStr ''T'') ''curity-repo'' None)) = Some True
   \<and> map_option single_mirror_variant
        (read_settings (settingsXml_mirror (JStr ''T'') ''curity-repo'')) = Some True"
  using settingsXml_variants [of "JStr ''T''" "''curity-repo''" None]
  by (simp add: xml_plain_literals)

text \<open>
  C2 as stated fails: without an \<open>uploadServerId\<close> the document still has two server
  entries, the second with the id \<open>undefined\<close>, and is not the single-mirror variant.
\<close>

theorem settingsXml_absent_upload_counterexample:
  "map_option single_mirror_variant
     (read_settings (settingsXml (JStr ''T'') ''curity-repo'' None)) = Some False
   \<and> map_option (\<lambda>s. map server_id (servers s))
        (read_settings (settingsXml (JStr ''T'') ''curity-repo'' None))
       = Some [''curity-repo'', ''undefined'']"
  by (simp add: settingsXml_def read_simps single_mirror_variant_def
      del: scan.simps(2,3,4) xml_unescape.simps(2))

text \<open>
  C6. The document rendered for the server id \<open>curity-repo\<close>, the upload server id
  \<open>curity-upload-repo\<close> and the token \<open>T\<close> has exactly two server entries, with these
  two ids and the header \<open>Authorization: Bearer T\<close> each, and exactly one mirror entry,
  with the id \<open>curity-repo\<close> and the URL of the dev repository, which is not the URL
  of the release repository.
\<close>

theorem settingsXml_dual_server_round_trip:
  "read_settings (settingsXml (JStr ''T'') ''curity-repo'' (Some ''curity-upload-repo'')) =
     Some \<lparr>servers =
             [\<lparr>server_id = ''curity-repo'',
               server_headers = [(''Authorization'', ''Bearer T'')]\<rparr>,
              \<lparr>server_id = ''curity-upload-repo'',
               server_headers = [(''Authorization'', ''Bearer T'')]\<rparr>],
           mirrors =
             [\<lparr>mirror_id = ''curity-repo'',
               mirror_name = ''Curity Maven Repository'',
               mirror_url = dev_repository_url,
               mirror_of = ''*'',
               mirror_headers = []\<rparr>]\<rparr>
   \<and> dev_repository_url \<noteq> release_repository_url"
  using read_settings_settingsXml [of "JStr ''T''" "''curity-repo''" "Some ''curity-upload-repo''"]
  by (simp add: xml_plain_literals dev_repository_url_def release_repository_url_def)


end
